theory Spec2Isabelle
  imports Main "HOL-Library.Code_Target_Numeral"
begin

section \<open>Go strings and decimal digits\<close>

text \<open>
  A Go string is a sequence of bytes, and so is a HOL \<^typ>\<open>string\<close>. The degree sign of
  the format string \<^verbatim>\<open>"%.1f\<degree>C"\<close> is the two bytes C2 B0 of its UTF-8 encoding.
\<close>

definition degree_sign :: string where
  "degree_sign = [CHR 0xC2, CHR 0xB0]"

definition digit_char :: "nat \<Rightarrow> char" where
  "digit_char n = char_of (48 + n)"

definition digit_val :: "char \<Rightarrow> nat" where
  "digit_val c = of_char c - 48"

text \<open>The decimal digits of a natural number, most significant first, \<open>0\<close> as \<open>''0''\<close>.\<close>

fun decimal :: "nat \<Rightarrow> string" where
  "decimal n = (if n < 10 then [digit_char n] else decimal (n div 10) @ [digit_char (n mod 10)])"

declare decimal.simps [simp del]

section \<open>The standard library: package time\<close>

text \<open>
  \<open>time.Parse\<close> with the layout \<^verbatim>\<open>"2006-01-02T15:04"\<close> and \<open>Time.Format\<close> with the layout
  \<^verbatim>\<open>"Mon 15:04"\<close> are the two calls \<open>extractWeatherData\<close> makes. A parsed time carries no
  zone, so it is a civil date and time in UTC with zero seconds.
\<close>

record time_Time =
  year :: int
  month :: nat
  day :: nat
  hour :: nat
  minute :: nat

text \<open>\<open>isDigit(s, i)\<close>: the index is in range and the byte there is a decimal digit.\<close>

definition isDigit :: "string \<Rightarrow> nat \<Rightarrow> bool" where
  "isDigit s i =
     (if length s \<le> i then False
      else let c = (of_char (s ! i) :: nat) in 48 \<le> c \<and> c \<le> 57)"

text \<open>
  \<open>getnum(s, fixed)\<close> reads one or two digits; with \<open>fixed\<close> it insists on two.
  \<open>None\<close> is \<open>errBad\<close>.
\<close>

definition getnum :: "string \<Rightarrow> bool \<Rightarrow> (nat \<times> string) option" where
  "getnum s fixed =
     (if \<not> isDigit s 0 then None
      else if \<not> isDigit s 1 then
        (if fixed then None else Some (digit_val (s ! 0), drop 1 s))
      else Some (digit_val (s ! 0) * 10 + digit_val (s ! 1), drop 2 s))"

text \<open>\<open>leadingInt\<close> consumes the leading digits of a string (no overflow on four digits).\<close>

fun leadingInt :: "nat \<Rightarrow> string \<Rightarrow> nat \<times> string" where
  "leadingInt x [] = (x, [])"
| "leadingInt x (c # cs) =
     (if isDigit (c # cs) 0 then leadingInt (x * 10 + digit_val c) cs else (x, c # cs))"

definition atoi :: "string \<Rightarrow> int option" where
  "atoi s =
     (let neg = (s \<noteq> [] \<and> hd s = CHR ''-'');
          s' = (if s \<noteq> [] \<and> (hd s = CHR ''-'' \<or> hd s = CHR ''+'') then tl s else s)
      in case leadingInt 0 s' of
           (q, rem) \<Rightarrow> if rem \<noteq> [] then None else Some (if neg then - int q else int q))"

text \<open>
  \<open>skip(value, prefix)\<close> for a literal prefix without spaces (the prefixes of this layout are
  \<open>-\<close>, \<open>-\<close>, \<open>T\<close> and \<open>:\<close>): every byte has to match.
\<close>

fun skip :: "string \<Rightarrow> string \<Rightarrow> string option" where
  "skip v [] = Some v"
| "skip [] (p # ps) = None"
| "skip (c # cs) (p # ps) = (if c \<noteq> p then None else skip cs ps)"

definition isLeap :: "int \<Rightarrow> bool" where
  "isLeap y =
     (if y mod 4 = 0 then (if y mod 100 = 0 then y mod 400 = 0 else True) else False)"

definition daysBefore :: "nat list" where
  "daysBefore = [0, 31, 59, 90, 120, 151, 181, 212, 243, 273, 304, 334, 365]"

definition daysIn :: "nat \<Rightarrow> int \<Rightarrow> nat" where
  "daysIn m y =
     (if m = 2 \<and> isLeap y then 29 else daysBefore ! m - daysBefore ! (m - 1))"

text \<open>
  The fields of a value under the layout \<^verbatim>\<open>"2006-01-02T15:04"\<close>, chunk by chunk as
  \<open>time.Parse\<close> walks the layout: a four-digit year, two-digit month and day, an hour of
  one or two digits (\<open>stdHour\<close> calls \<open>getnum\<close> with \<open>fixed = false\<close>), a two-digit minute,
  and nothing after it. Month, hour and minute are range-checked where they are read, the
  day of the month after the whole value has been read.
\<close>

definition parse_year :: "string \<Rightarrow> (int \<times> string) option" where
  "parse_year v =
     (if length v < 4 then None
      else if \<not> isDigit v 0 then None
      else case atoi (take 4 v) of None \<Rightarrow> None | Some y \<Rightarrow> Some (y, drop 4 v))"

definition parse_month :: "string \<Rightarrow> (nat \<times> string) option" where
  "parse_month v =
     (case getnum v True of
        None \<Rightarrow> None
      | Some (m, rest) \<Rightarrow> if m \<le> 0 \<or> 12 < m then None else Some (m, rest))"

definition parse_hour :: "string \<Rightarrow> (nat \<times> string) option" where
  "parse_hour v =
     (case getnum v False of
        None \<Rightarrow> None
      | Some (h, rest) \<Rightarrow> if 24 \<le> h then None else Some (h, rest))"

definition parse_minute :: "string \<Rightarrow> (nat \<times> string) option" where
  "parse_minute v =
     (case getnum v True of
        None \<Rightarrow> None
      | Some (mi, rest) \<Rightarrow> if 60 \<le> mi then None else Some (mi, rest))"

definition parse_fields :: "string \<Rightarrow> time_Time option" where
  "parse_fields v0 =
     Option.bind (parse_year v0) (\<lambda>(y, v1).
     Option.bind (skip v1 ''-'') (\<lambda>v2.
     Option.bind (parse_month v2) (\<lambda>(m, v3).
     Option.bind (skip v3 ''-'') (\<lambda>v4.
     Option.bind (getnum v4 True) (\<lambda>(d, v5).
     Option.bind (skip v5 ''T'') (\<lambda>v6.
     Option.bind (parse_hour v6) (\<lambda>(h, v7).
     Option.bind (skip v7 '':'') (\<lambda>v8.
     Option.bind (parse_minute v8) (\<lambda>(mi, v9).
       if v9 \<noteq> [] then None
       else if d < 1 \<or> daysIn m y < d then None
       else Some \<lparr>year = y, month = m, day = d, hour = h, minute = mi\<rparr>)))))))))"

text \<open>
  The weekday, as \<open>Time.Weekday\<close> computes it: the days since the absolute epoch (1 January
  of the year \<open>absoluteZeroYear\<close>, a Monday), modulo seven.
\<close>

definition absoluteZeroYear :: int where
  "absoluteZeroYear = - 292277022399"

definition daysSinceEpoch :: "int \<Rightarrow> int" where
  "daysSinceEpoch yr =
     (let y = yr - absoluteZeroYear;
          n400 = y div 400; y1 = y - 400 * n400;
          n100 = y1 div 100; y2 = y1 - 100 * n100;
          n4 = y2 div 4; y3 = y2 - 4 * n4
      in 146097 * n400 + 36524 * n100 + 1461 * n4 + 365 * y3)"

definition absDays :: "time_Time \<Rightarrow> int" where
  "absDays t =
     daysSinceEpoch (year t) + int (daysBefore ! (month t - 1))
       + (if isLeap (year t) \<and> 3 \<le> month t then 1 else 0)
       + (int (day t) - 1)"

definition Weekday :: "time_Time \<Rightarrow> nat" where
  "Weekday t = nat ((absDays t + 1) mod 7)"

definition shortDayNames :: "string list" where
  "shortDayNames = [''Sun'', ''Mon'', ''Tue'', ''Wed'', ''Thu'', ''Fri'', ''Sat'']"

text \<open>\<open>appendInt(b, x, 2)\<close>: a number below 100 in two digits, zero-padded.\<close>

definition pad2 :: "nat \<Rightarrow> string" where
  "pad2 n = (if n < 10 then CHR ''0'' # decimal n else decimal n)"

text \<open>\<open>t.Format("Mon 15:04")\<close>: abbreviated weekday, a space, hour and minute in two digits.\<close>

definition Format_Mon_15_04 :: "time_Time \<Rightarrow> string" where
  "Format_Mon_15_04 t =
     shortDayNames ! Weekday t @ '' '' @ pad2 (hour t) @ '':'' @ pad2 (minute t)"

section \<open>The standard library: float64 and the verb \<open>%.1f\<close>\<close>

text \<open>
  A finite float64 is a sign, a mantissa below \<open>2^53\<close> and an exponent: its value is
  \<open>\<plusminus> mantissa * 2^exponent\<close>. JSON numbers decode to finite values only (an overflow is a
  decoding error), so infinities and NaN do not reach the formatting.
\<close>

datatype float64 = Float64 (negative: bool) (mantissa: nat) (exponent: int)

text \<open>\<open>n / d\<close> rounded to the nearest natural number, a tie to the even one.\<close>

definition round_half_even :: "nat \<Rightarrow> nat \<Rightarrow> nat" where
  "round_half_even n d =
     (let q = n div d; r = n mod d
      in if 2 * r < d then q
         else if d < 2 * r then q + 1
         else if even q then q else q + 1)"

text \<open>The number of bits of a natural number (\<open>bits.Len\<close>).\<close>

fun bit_length :: "nat \<Rightarrow> nat" where
  "bit_length n = (if n = 0 then 0 else Suc (bit_length (n div 2)))"

declare bit_length.simps [simp del]

text \<open>
  \<open>n / d\<close> over \<open>2^e\<close>, rounded to the nearest natural number (ties to even), for an exponent
  of any sign.
\<close>

definition scaled_round :: "nat \<Rightarrow> nat \<Rightarrow> int \<Rightarrow> nat" where
  "scaled_round n d e =
     (if e < 0 then round_half_even (n * 2 ^ nat (- e)) d
      else round_half_even n (d * 2 ^ nat e))"

text \<open>
  The float64 nearest to the decimal number \<open>\<plusminus> n / d\<close> (round to nearest, ties to even), as
  \<open>strconv.ParseFloat\<close> and the Go compiler convert a decimal literal: 53 bits of mantissa,
  exponents from \<open>-1074\<close> (subnormal numbers) to \<open>971\<close>; \<open>None\<close> is an overflow. The
  denominator is positive.
\<close>

definition nearest_float64 :: "bool \<Rightarrow> nat \<Rightarrow> nat \<Rightarrow> float64 option" where
  "nearest_float64 neg n d =
     (if n = 0 then Some (Float64 neg 0 (- 1074))
      else
        let e0 = int (bit_length n) - int (bit_length d) - 53;
            e1 = (if (if e0 < 0 then d * 2 ^ 53 \<le> n * 2 ^ nat (- e0)
                      else d * 2 ^ nat e0 * 2 ^ 53 \<le> n) then e0 + 1 else e0);
            e2 = max e1 (- 1074);
            m = scaled_round n d e2;
            e3 = (if m = 2 ^ 53 then e2 + 1 else e2);
            m3 = (if m = 2 ^ 53 then 2 ^ 52 else m)
        in if 971 < e3 then None else Some (Float64 neg m3 e3))"

text \<open>
  \<open>fmt.Sprintf("%.1f", x)\<close>: \<open>strconv\<close> converts the exact binary value to decimal and rounds
  it to one digit after the point, a tie to the even digit; the sign is printed whenever the
  sign bit is set. \<open>tenths x\<close> is the rounded magnitude in tenths.
\<close>

definition tenths :: "float64 \<Rightarrow> nat" where
  "tenths x =
     (if 0 \<le> exponent x then mantissa x * 2 ^ nat (exponent x) * 10
      else round_half_even (mantissa x * 10) (2 ^ nat (- exponent x)))"

definition Sprintf_1f :: "float64 \<Rightarrow> string" where
  "Sprintf_1f x =
     (if negative x then ''-'' else '''')
       @ decimal (tenths x div 10) @ ''.'' @ [digit_char (tenths x mod 10)]"

section \<open>Errors and panics\<close>

text \<open>
  A Go \<open>error\<close> value is made by \<open>errors.New\<close> (also inside the libraries), by \<open>fmt.Errorf\<close>
  wrapping another error with \<open>%w\<close> behind a prefix, or is the \<open>*time.ParseError\<close> of
  \<open>time.Parse\<close> for a value that does not follow the layout. A run-time panic is not an error
  value: the function does not return.
\<close>

datatype error =
    errors_New string
  | fmt_Errorf string error
  | time_ParseError string

datatype panic = IndexOutOfRange nat nat

datatype 'a outcome = Returns "error + 'a" | Panics panic

definition time_Parse :: "string \<Rightarrow> error + time_Time" where
  "time_Parse v = (case parse_fields v of None \<Rightarrow> Inl (time_ParseError v) | Some t \<Rightarrow> Inr t)"

section \<open>main.go: the data\<close>

record LatLong =
  Latitude :: float64
  Longitude :: float64

record GeoResponse =
  Results :: "LatLong list"

record Hourly =
  Time :: "string list"
  Temperature2m :: "float64 list"

record WeatherResponse =
  Latitude :: float64
  Longitude :: float64
  Timezone :: string
  Hourly :: Hourly

record Forecast =
  Date :: string
  Temperature :: string

record WeatherDisplay =
  City :: string
  Forecasts :: "Forecast list"

section \<open>main.go: extractWeatherData\<close>

text \<open>The struct literal of one loop iteration (lines 62 to 65).\<close>

definition forecast_of :: "time_Time \<Rightarrow> float64 \<Rightarrow> Forecast" where
  "forecast_of date temp =
     \<lparr>Date = Format_Mon_15_04 date, Temperature = Sprintf_1f temp @ degree_sign @ ''C''\<rparr>"

text \<open>
  The loop over \<open>weatherResponse.Hourly.Time\<close> (lines 57 to 67), from index \<open>i\<close> on, with the
  forecasts appended so far. The time string is parsed first; then \<open>Temperature2m[i]\<close> is read,
  and Go panics when \<open>i\<close> is not below the length of that slice.
\<close>

fun forecast_loop ::
  "float64 list \<Rightarrow> nat \<Rightarrow> string list \<Rightarrow> Forecast list \<Rightarrow> (Forecast list) outcome" where
  "forecast_loop temps i [] forecasts = Returns (Inr forecasts)"
| "forecast_loop temps i (t # ts) forecasts =
     (case time_Parse t of
        Inl err \<Rightarrow> Returns (Inl err)
      | Inr date \<Rightarrow>
          if i < length temps
          then forecast_loop temps (Suc i) ts (forecasts @ [forecast_of date (temps ! i)])
          else Panics (IndexOutOfRange i (length temps)))"

text \<open>
  \<open>json.Unmarshal\<close> into a \<open>WeatherResponse\<close> is the library's: it is a parameter, giving the
  error or the decoded struct. On an error Go returns the zero \<open>WeatherDisplay\<close> beside it; the
  model returns the error alone.
\<close>

definition extractWeatherData ::
  "(string \<Rightarrow> error + WeatherResponse) \<Rightarrow> string \<Rightarrow> string \<Rightarrow> WeatherDisplay outcome" where
  "extractWeatherData json_Unmarshal city rawWeather =
     (case json_Unmarshal rawWeather of
        Inl err \<Rightarrow> Returns (Inl (fmt_Errorf ''error decoding weather response'' err))
      | Inr weatherResponse \<Rightarrow>
          (case forecast_loop (Temperature2m (Hourly weatherResponse)) 0
                  (Time (Hourly weatherResponse)) [] of
             Panics p \<Rightarrow> Panics p
           | Returns (Inl err) \<Rightarrow> Returns (Inl err)
           | Returns (Inr forecasts) \<Rightarrow> Returns (Inr \<lparr>City = city, Forecasts = forecasts\<rparr>)))"

section \<open>main.go: getLatLong, fetchLatLong, insertCity\<close>

text \<open>
  The database and the geocoding service are outside the program. Each is a function on a
  world \<open>'w\<close> that gives its answer and the world after the call: \<open>db_Get\<close> is the query of
  line 97 (an error, of any kind, or the row), \<open>db_Exec\<close> the insert of line 132, \<open>http_Get\<close>
  the request of line 76 (an error or the body), \<open>json_Decode\<close> the decoding of line 83.
  The state of a run is the world and the calls made so far, in order.
\<close>

datatype call = DbGet string | HttpGet string | DbExec string float64 float64

record 'w externals =
  db_Get :: "string \<Rightarrow> 'w \<Rightarrow> (error + LatLong) \<times> 'w"
  db_Exec :: "string \<Rightarrow> float64 \<Rightarrow> float64 \<Rightarrow> 'w \<Rightarrow> error option \<times> 'w"
  http_Get :: "string \<Rightarrow> 'w \<Rightarrow> (error + string) \<times> 'w"
  json_Decode :: "string \<Rightarrow> error + GeoResponse"
  url_QueryEscape :: "string \<Rightarrow> string"

type_synonym 'w state = "'w \<times> call list"

definition geo_endpoint :: "'w externals \<Rightarrow> string \<Rightarrow> string" where
  "geo_endpoint ext city =
     ''https://geocoding-api.open-meteo.com/v1/search?name='' @ url_QueryEscape ext city
       @ ''&count=1&language=en&format=json''"

fun fetchLatLong :: "'w externals \<Rightarrow> string \<Rightarrow> 'w state \<Rightarrow> (error + LatLong) \<times> 'w state" where
  "fetchLatLong ext city (w, calls) =
     (let endpoint = geo_endpoint ext city;
          (resp, w') = http_Get ext endpoint w;
          s' = (w', calls @ [HttpGet endpoint])
      in (case resp of
            Inl err \<Rightarrow> (Inl (fmt_Errorf ''error making request to Geo API'' err), s')
          | Inr body \<Rightarrow>
              (case json_Decode ext body of
                 Inl err \<Rightarrow> (Inl (fmt_Errorf ''error decoding response'' err), s')
               | Inr response \<Rightarrow>
                   (if length (Results response) < 1
                    then (Inl (errors_New ''no results found''), s')
                    else (Inr (Results response ! 0), s')))))"

fun insertCity ::
  "'w externals \<Rightarrow> string \<Rightarrow> LatLong \<Rightarrow> 'w state \<Rightarrow> error option \<times> 'w state" where
  "insertCity ext name latLong (w, calls) =
     (let (err, w') = db_Exec ext name (LatLong.Latitude latLong) (LatLong.Longitude latLong) w
      in (err, (w', calls @ [DbExec name (LatLong.Latitude latLong) (LatLong.Longitude latLong)])))"

fun getLatLong :: "'w externals \<Rightarrow> string \<Rightarrow> 'w state \<Rightarrow> (error + LatLong) \<times> 'w state" where
  "getLatLong ext name (w, calls) =
     (let (r, w1) = db_Get ext name w;
          s1 = (w1, calls @ [DbGet name])
      in (case r of
            Inr latLong \<Rightarrow> (Inr latLong, s1)
          | Inl _ \<Rightarrow>
              (case fetchLatLong ext name s1 of
                 (Inl err, s2) \<Rightarrow> (Inl err, s2)
               | (Inr latLong, s2) \<Rightarrow>
                   (case insertCity ext name latLong s2 of
                      (Some err, s3) \<Rightarrow> (Inl err, s3)
                    | (None, s3) \<Rightarrow> (Inr latLong, s3)))))"

section \<open>Statement helpers and sample inputs\<close>

text \<open>
  The forecasts of two parallel slices: one entry for each pair of a time string and a
  temperature, in the order of the slices.
\<close>

definition entries :: "string list \<Rightarrow> float64 list \<Rightarrow> Forecast list" where
  "entries ts temps = map (\<lambda>(t, x). forecast_of (projr (time_Parse t)) x) (zip ts temps)"

text \<open>
  The float64 nearest to 18.45 lies just below it; \<open>-0.25\<close> is a float64 exactly, and a tie
  between \<open>-0.2\<close> and \<open>-0.3\<close>.
\<close>

definition f64_18_45 :: float64 where
  "f64_18_45 = Float64 False 5193213320311603 (- 48)"

definition f64_minus_quarter :: float64 where
  "f64_minus_quarter = Float64 True 1 (- 2)"

text \<open>A decoded forecast body with the given hourly slices, and a decoder that yields it.\<close>

definition sample_hour :: "string list \<Rightarrow> float64 list \<Rightarrow> WeatherResponse" where
  "sample_hour ts temps =
     \<lparr>Latitude = Float64 False 105 (- 1), Longitude = Float64 False 27 (- 1),
      Timezone = ''GMT'', Hourly = \<lparr>Time = ts, Temperature2m = temps\<rparr>\<rparr>"

definition decodes_to :: "WeatherResponse \<Rightarrow> string \<Rightarrow> error + WeatherResponse" where
  "decodes_to resp raw = Inr resp"

text \<open>
  Doubles for the database and the geocoding service: the world is the \<open>cities\<close> table, the
  query finds the first row of a name, the insert appends a row, the service answers every
  request with one result.
\<close>

type_synonym cities = "(string \<times> LatLong) list"

definition berlin :: LatLong where
  "berlin =
     \<lparr>LatLong.Latitude = Float64 False 105 (- 1), LatLong.Longitude = Float64 False 27 (- 1)\<rparr>"

definition cities_Get :: "string \<Rightarrow> cities \<Rightarrow> (error + LatLong) \<times> cities" where
  "cities_Get name tbl =
     (case map_of tbl name of
        None \<Rightarrow> (Inl (errors_New ''sql: no rows in result set''), tbl)
      | Some row \<Rightarrow> (Inr row, tbl))"

definition cities_Exec ::
  "string \<Rightarrow> float64 \<Rightarrow> float64 \<Rightarrow> cities \<Rightarrow> error option \<times> cities" where
  "cities_Exec name lat long tbl =
     (None, tbl @ [(name, \<lparr>LatLong.Latitude = lat, LatLong.Longitude = long\<rparr>)])"

definition sample_externals :: "cities externals" where
  "sample_externals =
     \<lparr>db_Get = cities_Get, db_Exec = cities_Exec,
      http_Get = (\<lambda>endpoint tbl. (Inr ''geo.json'', tbl)),
      json_Decode = (\<lambda>body. Inr \<lparr>Results = [berlin]\<rparr>),
      url_QueryEscape = (\<lambda>s. s)\<rparr>"

text \<open>The same with an insert that fails, a service without results, a query that fails.\<close>

definition insert_refused :: "cities externals" where
  "insert_refused =
     sample_externals\<lparr>db_Exec :=
       (\<lambda>name lat long tbl. (Some (errors_New ''pq: connection refused''), tbl))\<rparr>"

definition no_results :: "cities externals" where
  "no_results = sample_externals\<lparr>json_Decode := (\<lambda>body. Inr \<lparr>Results = []\<rparr>)\<rparr>"

definition query_broken :: "cities externals" where
  "query_broken =
     sample_externals\<lparr>db_Get :=
       (\<lambda>name tbl. (Inl (errors_New ''driver: bad connection''), tbl))\<rparr>"

definition berlin_endpoint :: string where
  "berlin_endpoint =
     ''https://geocoding-api.open-meteo.com/v1/search?name=Berlin&count=1&language=en&format=json''"

section \<open>The loop of extractWeatherData\<close>

lemma length_entries: "length (entries ts temps) = min (length ts) (length temps)"
  by (simp add: entries_def)

lemma nth_entries:
  "i < length ts \<Longrightarrow> i < length temps \<Longrightarrow>
   entries ts temps ! i = forecast_of (projr (time_Parse (ts ! i))) (temps ! i)"
  by (simp add: entries_def)

lemma entries_take: "entries ts (take (length ts) temps) = entries ts temps"
proof -
  have "zip ts (take (length ts) temps) = take (length ts) (zip ts temps)"
    by (simp add: take_zip)
  also have "\<dots> = zip ts temps"
    by simp
  finally show ?thesis
    by (simp add: entries_def)
qed

text \<open>Every time string parses and the temperatures reach: the loop appends one entry each.\<close>

lemma forecast_loop_all_parse:
  "\<forall>t \<in> set ts. \<not> isl (time_Parse t) \<Longrightarrow> i + length ts \<le> length temps \<Longrightarrow>
   forecast_loop temps i ts acc = Returns (Inr (acc @ entries ts (drop i temps)))"
proof (induction ts arbitrary: i acc)
  case Nil
  then show ?case by (simp add: entries_def)
next
  case (Cons t ts)
  from Cons.prems obtain date where d: "time_Parse t = Inr date"
    by (cases "time_Parse t") auto
  from Cons.prems have i: "i < length temps" by simp
  have "forecast_loop temps (Suc i) ts (acc @ [forecast_of date (temps ! i)])
        = Returns (Inr ((acc @ [forecast_of date (temps ! i)]) @ entries ts (drop (Suc i) temps)))"
    using Cons.prems by (intro Cons.IH) auto
  moreover have "drop i temps = temps ! i # drop (Suc i) temps"
    using i by (simp add: Cons_nth_drop_Suc)
  ultimately show ?case using d i by (simp add: entries_def)
qed


text \<open>
  Fewer temperatures than time strings, and the time strings parse up to the index where the
  temperatures end: the loop panics there.
\<close>

lemma forecast_loop_short:
  "length temps < i + length ts \<Longrightarrow> i \<le> length temps \<Longrightarrow>
   \<forall>j \<le> length temps - i. \<not> isl (time_Parse (ts ! j)) \<Longrightarrow>
   forecast_loop temps i ts acc = Panics (IndexOutOfRange (length temps) (length temps))"
proof (induction ts arbitrary: i acc)
  case Nil
  then show ?case by simp
next
  case (Cons t ts)
  from Cons.prems(3) have "\<not> isl (time_Parse ((t # ts) ! 0))" by blast
  then obtain date where d: "time_Parse t = Inr date"
    by (cases "time_Parse t") auto
  show ?case
  proof (cases "i < length temps")
    case True
    have "\<forall>j \<le> length temps - Suc i. \<not> isl (time_Parse (ts ! j))"
    proof (intro allI impI)
      fix j assume "j \<le> length temps - Suc i"
      then have "Suc j \<le> length temps - i" using True by simp
      with Cons.prems(3) have "\<not> isl (time_Parse ((t # ts) ! Suc j))" by blast
      then show "\<not> isl (time_Parse (ts ! j))" by simp
    qed
    then have "forecast_loop temps (Suc i) ts (acc @ [forecast_of date (temps ! i)])
          = Panics (IndexOutOfRange (length temps) (length temps))"
      using Cons.prems True by (intro Cons.IH) auto
    then show ?thesis using d True by simp
  next
    case False
    with Cons.prems have "i = length temps" by simp
    then show ?thesis using d by simp
  qed
qed

lemma entries_append:
  assumes "length ts \<le> length temps"
  shows "entries ts (temps @ extra) = entries ts temps"
proof -
  have "entries ts (temps @ extra) = entries ts (take (length ts) (temps @ extra))"
    by (rule entries_take [symmetric])
  also have "take (length ts) (temps @ extra) = take (length ts) temps"
    using assms by simp
  also have "entries ts (take (length ts) temps) = entries ts temps"
    by (rule entries_take)
  finally show ?thesis .
qed

text \<open>
  In general: when the temperature slice is shorter than the time slice and the time strings
  parse up to the index where the temperatures end, \<open>extractWeatherData\<close> panics at that index.
\<close>

lemma extract_short_panics:
  assumes "json_Unmarshal rawWeather = Inr resp"
    and "length (Temperature2m (Hourly resp)) < length (Time (Hourly resp))"
    and "\<forall>j \<le> length (Temperature2m (Hourly resp)).
           \<not> isl (time_Parse (Time (Hourly resp) ! j))"
  shows "extractWeatherData json_Unmarshal city rawWeather
           = Panics (IndexOutOfRange (length (Temperature2m (Hourly resp)))
                                     (length (Temperature2m (Hourly resp))))"
proof -
  have "forecast_loop (Temperature2m (Hourly resp)) 0 (Time (Hourly resp)) []
          = Panics (IndexOutOfRange (length (Temperature2m (Hourly resp)))
                                     (length (Temperature2m (Hourly resp))))"
    using assms by (intro forecast_loop_short) auto
  then show ?thesis using assms(1) by (simp add: extractWeatherData_def)
qed

section \<open>The calls of fetchLatLong\<close>

lemma fetchLatLong_calls:
  "snd (snd (fetchLatLong ext city (w, calls))) = calls @ [HttpGet (geo_endpoint ext city)]"
  by (simp add: Let_def split: prod.splits sum.splits)

section \<open>Evaluating the library functions on the samples\<close>

lemma sample_hour_sel [simp]:
  "Time (Hourly (sample_hour ts temps)) = ts"
  "Temperature2m (Hourly (sample_hour ts temps)) = temps"
  by (simp_all add: sample_hour_def)

lemma decodes_to_eq [simp]: "decodes_to resp raw = Inr resp"
  by (simp add: decodes_to_def)

lemma parse_mon_14:
  "time_Parse ''2024-03-11T14:00''
     = Inr \<lparr>year = 2024, month = 3, day = 11, hour = 14, minute = 0\<rparr>"
  by code_simp

lemma parse_tue_05:
  "time_Parse ''2024-03-12T05:07''
     = Inr \<lparr>year = 2024, month = 3, day = 12, hour = 5, minute = 7\<rparr>"
  by code_simp


lemma format_mon_14:
  "Format_Mon_15_04 \<lparr>year = 2024, month = 3, day = 11, hour = 14, minute = 0\<rparr> = ''Mon 14:00''"
  by code_simp

lemma format_tue_05:
  "Format_Mon_15_04 \<lparr>year = 2024, month = 3, day = 12, hour = 5, minute = 7\<rparr> = ''Tue 05:07''"
  by code_simp

lemma sprintf_18_45: "Sprintf_1f f64_18_45 = ''18.4''"
  by code_simp

lemma sprintf_minus_quarter: "Sprintf_1f f64_minus_quarter = ''-0.2''"
  by code_simp

lemma nearest_18_45: "nearest_float64 False 1845 100 = Some f64_18_45"
  by code_simp

text \<open>
  Independently of \<open>nearest_float64\<close>: the sample is a normal float64 with exponent \<open>-48\<close>,
  its value is below 18.45, and 18.45 is below the midpoint to the next float64 above it.
\<close>

lemma f64_18_45_brackets:
  "exponent f64_18_45 = - 48"
  "2 ^ 52 \<le> mantissa f64_18_45"
  "mantissa f64_18_45 < 2 ^ 53"
  "mantissa f64_18_45 * 100 < 1845 * 2 ^ 48"
  "2 * (1845 * 2 ^ 48) < (2 * mantissa f64_18_45 + 1) * 100"
  by (simp_all add: f64_18_45_def)

lemma sample_endpoints:
  "geo_endpoint sample_externals ''Berlin'' = berlin_endpoint"
  "geo_endpoint insert_refused ''Berlin'' = berlin_endpoint"
  "geo_endpoint no_results ''Berlin'' = berlin_endpoint"
  "geo_endpoint query_broken ''Berlin'' = berlin_endpoint"
  by (simp_all add: geo_endpoint_def berlin_endpoint_def sample_externals_def
      insert_refused_def no_results_def query_broken_def)

section \<open>The claims about extractWeatherData\<close>

text \<open>
  C1: for a body that decodes to an hourly time slice and an hourly temperature slice of the
  same length \<open>N\<close>, all of whose time strings parse, \<open>extractWeatherData\<close> returns a
  \<open>WeatherDisplay\<close> with exactly \<open>N\<close> forecasts, the \<open>i\<close>-th built from the \<open>i\<close>-th time
  string and the \<open>i\<close>-th temperature, in the order of the slices.
\<close>

theorem extract_parallel_arrays:
  assumes "json_Unmarshal rawWeather = Inr resp"
    and "length (Time (Hourly resp)) = N"
    and "length (Temperature2m (Hourly resp)) = N"
    and "\<forall>t \<in> set (Time (Hourly resp)). \<not> isl (time_Parse t)"
  shows "extractWeatherData json_Unmarshal city rawWeather
           = Returns (Inr \<lparr>City = city,
               Forecasts = entries (Time (Hourly resp)) (Temperature2m (Hourly resp))\<rparr>)
         \<and> length (entries (Time (Hourly resp)) (Temperature2m (Hourly resp))) = N
         \<and> (\<forall>i<N. entries (Time (Hourly resp)) (Temperature2m (Hourly resp)) ! i
               = forecast_of (projr (time_Parse (Time (Hourly resp) ! i)))
                   (Temperature2m (Hourly resp) ! i))"
proof -
  have "forecast_loop (Temperature2m (Hourly resp)) 0 (Time (Hourly resp)) []
          = Returns (Inr ([] @ entries (Time (Hourly resp)) (drop 0 (Temperature2m (Hourly resp)))))"
    using assms by (intro forecast_loop_all_parse) auto
  then have "extractWeatherData json_Unmarshal city rawWeather
           = Returns (Inr \<lparr>City = city,
               Forecasts = entries (Time (Hourly resp)) (Temperature2m (Hourly resp))\<rparr>)"
    using assms(1) by (simp add: extractWeatherData_def)
  moreover have "length (entries (Time (Hourly resp)) (Temperature2m (Hourly resp))) = N"
    using assms(2,3) by (simp add: length_entries)
  moreover have "\<forall>i<N. entries (Time (Hourly resp)) (Temperature2m (Hourly resp)) ! i
               = forecast_of (projr (time_Parse (Time (Hourly resp) ! i)))
                   (Temperature2m (Hourly resp) ! i)"
    using assms(2,3) by (simp add: nth_entries)
  ultimately show ?thesis by blast
qed

theorem extract_parallel_arrays_witness:
  "extractWeatherData
      (decodes_to (sample_hour [''2024-03-11T14:00'', ''2024-03-12T05:07'']
         [f64_18_45, f64_minus_quarter])) ''Paris'' ''{}''
     = Returns (Inr \<lparr>City = ''Paris'', Forecasts =
         [\<lparr>Date = ''Mon 14:00'', Temperature = ''18.4'' @ degree_sign @ ''C''\<rparr>,
          \<lparr>Date = ''Tue 05:07'', Temperature = ''-0.2'' @ degree_sign @ ''C''\<rparr>]\<rparr>)"
proof -
  let ?resp = "sample_hour [''2024-03-11T14:00'', ''2024-03-12T05:07'']
                 [f64_18_45, f64_minus_quarter]"
  have h1: "decodes_to ?resp ''{}'' = Inr ?resp" by simp
  have h2: "length (Time (Hourly ?resp)) = 2" by simp
  have h3: "length (Temperature2m (Hourly ?resp)) = 2" by simp
  have h4: "\<forall>t \<in> set (Time (Hourly ?resp)). \<not> isl (time_Parse t)"
    by (simp add: parse_mon_14 parse_tue_05)
  show ?thesis
    using extract_parallel_arrays [where json_Unmarshal = "decodes_to ?resp"
        and rawWeather = "''{}''" and resp = ?resp and N = 2 and city = "''Paris''",
        OF h1 h2 h3 h4, THEN conjunct1]
    by (simp add: entries_def forecast_of_def parse_mon_14 parse_tue_05 format_mon_14
        format_tue_05 sprintf_18_45 sprintf_minus_quarter)
qed

text \<open>
  C2: a body whose temperature slice is strictly shorter than its time slice should fail with
  a malformed-response error and never index out of range. The code has no length check: with
  two time strings that parse and one temperature, the second iteration reads
  \<open>Temperature2m[1]\<close> of a slice of length 1 and panics.
\<close>

theorem extract_short_temperatures_panics:
  "extractWeatherData
      (decodes_to (sample_hour [''2024-03-11T14:00'', ''2024-03-12T05:07''] [f64_18_45]))
      ''Paris'' ''{}''
     = Panics (IndexOutOfRange 1 1)"
  by (simp add: extractWeatherData_def parse_mon_14 parse_tue_05)

text \<open>
  C3, as amended: the time string \<open>2024-03-11T14:00\<close> (a Monday) yields the label
  \<open>Mon 14:00\<close>; the temperature 18.45, decoded to the float64 nearest to it, yields the label
  \<open>18.4\<degree>C\<close>: the exact binary value, which lies just below 18.45, is rounded to one
  decimal place, and the suffix \<open>\<degree>C\<close> is fixed.
\<close>

theorem extract_formats_sample:
  assumes "json_Unmarshal rawWeather = Inr resp"
    and "Time (Hourly resp) = [''2024-03-11T14:00'']"
    and "Temperature2m (Hourly resp) = [x]"
    and "nearest_float64 False 1845 100 = Some x"
  shows "extractWeatherData json_Unmarshal city rawWeather
     = Returns (Inr \<lparr>City = city, Forecasts =
         [\<lparr>Date = ''Mon 14:00'', Temperature = ''18.4'' @ degree_sign @ ''C''\<rparr>]\<rparr>)"
proof -
  from assms(4) have "x = f64_18_45"
    by (simp add: nearest_18_45)
  then show ?thesis
    using assms(1,2,3)
    by (simp add: extractWeatherData_def parse_mon_14 forecast_of_def format_mon_14
        sprintf_18_45)
qed

theorem extract_formats_sample_witness:
  "nearest_float64 False 1845 100 = Some f64_18_45 \<and>
   extractWeatherData (decodes_to (sample_hour [''2024-03-11T14:00''] [f64_18_45]))
      ''Paris'' ''{}''
     = Returns (Inr \<lparr>City = ''Paris'', Forecasts =
         [\<lparr>Date = ''Mon 14:00'', Temperature = ''18.4'' @ degree_sign @ ''C''\<rparr>]\<rparr>)"
proof -
  let ?resp = "sample_hour [''2024-03-11T14:00''] [f64_18_45]"
  have h1: "decodes_to ?resp ''{}'' = Inr ?resp" by simp
  have h2: "Time (Hourly ?resp) = [''2024-03-11T14:00'']" by simp
  have h3: "Temperature2m (Hourly ?resp) = [f64_18_45]" by simp
  show ?thesis
    using extract_formats_sample [where json_Unmarshal = "decodes_to ?resp"
        and rawWeather = "''{}''" and resp = ?resp and x = f64_18_45 and city = "''Paris''",
        OF h1 h2 h3 nearest_18_45] nearest_18_45
    by simp
qed

text \<open>The label the claim expects for 18.45, \<open>18.5\<degree>C\<close>, is not what the code gives.\<close>

theorem extract_formats_sample_counterexample:
  "nearest_float64 False 1845 100 = Some f64_18_45 \<and>
   extractWeatherData (decodes_to (sample_hour [''2024-03-11T14:00''] [f64_18_45]))
      ''Paris'' ''{}''
     \<noteq> Returns (Inr \<lparr>City = ''Paris'', Forecasts =
         [\<lparr>Date = ''Mon 14:00'', Temperature = ''18.5'' @ degree_sign @ ''C''\<rparr>]\<rparr>)"
  by (simp add: nearest_18_45 extractWeatherData_def parse_mon_14 forecast_of_def
      format_mon_14 sprintf_18_45)




text \<open>
  C9: when the temperature slice is at least as long as the time slice and every time string
  parses, \<open>extractWeatherData\<close> returns as many forecasts as there are time strings; the
  temperatures beyond them have no effect on the result; an empty time slice gives a
  \<open>WeatherDisplay\<close> with no forecasts, not an error.
\<close>

theorem extract_longer_temperatures:
  assumes "json_Unmarshal rawWeather = Inr resp"
    and "length (Time (Hourly resp)) \<le> length (Temperature2m (Hourly resp))"
    and "\<forall>t \<in> set (Time (Hourly resp)). \<not> isl (time_Parse t)"
  shows "extractWeatherData json_Unmarshal city rawWeather
           = Returns (Inr \<lparr>City = city, Forecasts =
               entries (Time (Hourly resp))
                 (take (length (Time (Hourly resp))) (Temperature2m (Hourly resp)))\<rparr>)
         \<and> length (entries (Time (Hourly resp))
                 (take (length (Time (Hourly resp))) (Temperature2m (Hourly resp))))
             = length (Time (Hourly resp))
         \<and> (\<forall>extra. extractWeatherData
               (decodes_to (resp\<lparr>Hourly := (Hourly resp)\<lparr>Temperature2m :=
                   take (length (Time (Hourly resp))) (Temperature2m (Hourly resp)) @ extra\<rparr>\<rparr>))
               city rawWeather
             = extractWeatherData json_Unmarshal city rawWeather)
         \<and> (Time (Hourly resp) = [] \<longrightarrow>
               extractWeatherData json_Unmarshal city rawWeather
                 = Returns (Inr \<lparr>City = city, Forecasts = []\<rparr>))"
proof -
  let ?ts = "Time (Hourly resp)" and ?temps = "Temperature2m (Hourly resp)"
  have loop: "forecast_loop temps 0 ?ts [] = Returns (Inr (entries ?ts temps))"
    if "length ?ts \<le> length temps" for temps
    using forecast_loop_all_parse [of ?ts 0 temps "[]"] assms(3) that by simp
  have a: "extractWeatherData json_Unmarshal city rawWeather
           = Returns (Inr \<lparr>City = city, Forecasts = entries ?ts (take (length ?ts) ?temps)\<rparr>)"
    using assms(1,2) loop [of ?temps] by (simp add: extractWeatherData_def entries_take)
  have b: "length (entries ?ts (take (length ?ts) ?temps)) = length ?ts"
    using assms(2) by (simp add: length_entries)
  have c: "extractWeatherData
               (decodes_to (resp\<lparr>Hourly := (Hourly resp)\<lparr>Temperature2m :=
                   take (length ?ts) ?temps @ extra\<rparr>\<rparr>))
               city rawWeather
             = extractWeatherData json_Unmarshal city rawWeather" for extra
  proof -
    have "entries ?ts (take (length ?ts) ?temps @ extra) = entries ?ts (take (length ?ts) ?temps)"
      using assms(2) by (intro entries_append) simp
    then show ?thesis
      using a assms(2) loop [of "take (length ?ts) ?temps @ extra"]
      by (simp add: extractWeatherData_def)
  qed
  have d: "Time (Hourly resp) = [] \<longrightarrow>
               extractWeatherData json_Unmarshal city rawWeather
                 = Returns (Inr \<lparr>City = city, Forecasts = []\<rparr>)"
    using a by (simp add: entries_def)
  from a b c d show ?thesis by blast
qed

theorem extract_longer_temperatures_witness:
  "extractWeatherData
      (decodes_to (sample_hour [''2024-03-11T14:00'']
         [f64_18_45, f64_minus_quarter, f64_18_45])) ''Paris'' ''{}''
     = Returns (Inr \<lparr>City = ''Paris'', Forecasts =
         [\<lparr>Date = ''Mon 14:00'', Temperature = ''18.4'' @ degree_sign @ ''C''\<rparr>]\<rparr>)
   \<and> extractWeatherData (decodes_to (sample_hour [] [f64_18_45])) ''Paris'' ''{}''
     = Returns (Inr \<lparr>City = ''Paris'', Forecasts = []\<rparr>)"
proof -
  let ?resp = "sample_hour [''2024-03-11T14:00''] [f64_18_45, f64_minus_quarter, f64_18_45]"
  let ?none = "sample_hour [] [f64_18_45]"
  have h1: "decodes_to ?resp ''{}'' = Inr ?resp" by simp
  have h2: "length (Time (Hourly ?resp)) \<le> length (Temperature2m (Hourly ?resp))" by simp
  have h3: "\<forall>t \<in> set (Time (Hourly ?resp)). \<not> isl (time_Parse t)"
    by (simp add: parse_mon_14)
  have n1: "decodes_to ?none ''{}'' = Inr ?none" by simp
  have n2: "length (Time (Hourly ?none)) \<le> length (Temperature2m (Hourly ?none))" by simp
  have n3: "\<forall>t \<in> set (Time (Hourly ?none)). \<not> isl (time_Parse t)" by simp
  have "extractWeatherData (decodes_to ?resp) ''Paris'' ''{}''
     = Returns (Inr \<lparr>City = ''Paris'', Forecasts =
         [\<lparr>Date = ''Mon 14:00'', Temperature = ''18.4'' @ degree_sign @ ''C''\<rparr>]\<rparr>)"
    using extract_longer_temperatures [where json_Unmarshal = "decodes_to ?resp"
        and rawWeather = "''{}''" and resp = ?resp and city = "''Paris''",
        OF h1 h2 h3, THEN conjunct1]
    by (simp add: entries_def forecast_of_def parse_mon_14 format_mon_14 sprintf_18_45)
  moreover have "extractWeatherData (decodes_to ?none) ''Paris'' ''{}''
     = Returns (Inr \<lparr>City = ''Paris'', Forecasts = []\<rparr>)"
    using extract_longer_temperatures [where json_Unmarshal = "decodes_to ?none"
        and rawWeather = "''{}''" and resp = ?none and city = "''Paris''",
        OF n1 n2 n3, THEN conjunct1]
    by (simp add: entries_def)
  ultimately show ?thesis by simp
qed

text \<open>
  C10: whenever \<open>extractWeatherData\<close> returns a \<open>WeatherDisplay\<close>, its \<open>City\<close> is the \<open>city\<close>
  argument, whatever the body decodes to: latitude, longitude and timezone of the body play
  no part.
\<close>

theorem extract_city_verbatim:
  assumes "extractWeatherData json_Unmarshal city rawWeather = Returns (Inr display)"
  shows "City display = city"
  using assms
  by (auto simp: extractWeatherData_def split: sum.splits outcome.splits)

theorem extract_city_verbatim_witness:
  "extractWeatherData (decodes_to (sample_hour [''2024-03-12T05:07''] [f64_minus_quarter]))
      ''Paris'' ''{}''
     = Returns (Inr \<lparr>City = ''Paris'', Forecasts =
         [\<lparr>Date = ''Tue 05:07'', Temperature = ''-0.2'' @ degree_sign @ ''C''\<rparr>]\<rparr>)
   \<and> City \<lparr>City = ''Paris'', Forecasts =
         [\<lparr>Date = ''Tue 05:07'', Temperature = ''-0.2'' @ degree_sign @ ''C''\<rparr>]\<rparr> = ''Paris''"
proof -
  have h: "extractWeatherData
      (decodes_to (sample_hour [''2024-03-12T05:07''] [f64_minus_quarter])) ''Paris'' ''{}''
     = Returns (Inr \<lparr>City = ''Paris'', Forecasts =
         [\<lparr>Date = ''Tue 05:07'', Temperature = ''-0.2'' @ degree_sign @ ''C''\<rparr>]\<rparr>)"
    by (simp add: extractWeatherData_def parse_tue_05 forecast_of_def format_tue_05
        sprintf_minus_quarter)
  from h extract_city_verbatim [OF h] show ?thesis by (rule conjI)
qed

section \<open>The claims about getLatLong\<close>



text \<open>
  C5: when the query of the store misses, the geocoding service answers with a coordinate and
  the insert that follows fails, \<open>getLatLong\<close> returns the error of the insert and no
  coordinate, although one is known.
\<close>

theorem getLatLong_insert_failure:
  assumes "db_Get ext name w = (Inl e0, w1)"
    and "http_Get ext (geo_endpoint ext name) w1 = (Inr body, w2)"
    and "json_Decode ext body = Inr response"
    and "Results response = c # rest"
    and "db_Exec ext name (LatLong.Latitude c) (LatLong.Longitude c) w2 = (Some e, w3)"
  shows "getLatLong ext name (w, calls)
           = (Inl e, (w3, calls @ [DbGet name, HttpGet (geo_endpoint ext name),
                 DbExec name (LatLong.Latitude c) (LatLong.Longitude c)]))"
  using assms by simp

theorem getLatLong_insert_failure_witness:
  "getLatLong insert_refused ''Berlin'' ([], [])
     = (Inl (errors_New ''pq: connection refused''),
        ([], [DbGet ''Berlin'', HttpGet berlin_endpoint,
              DbExec ''Berlin'' (LatLong.Latitude berlin) (LatLong.Longitude berlin)]))"
proof -
  have h1: "db_Get insert_refused ''Berlin'' []
              = (Inl (errors_New ''sql: no rows in result set''), [])"
    by (simp add: insert_refused_def sample_externals_def cities_Get_def)
  have h2: "http_Get insert_refused (geo_endpoint insert_refused ''Berlin'') []
              = (Inr ''geo.json'', [])"
    by (simp add: insert_refused_def sample_externals_def)
  have h3: "json_Decode insert_refused ''geo.json'' = Inr \<lparr>Results = [berlin]\<rparr>"
    by (simp add: insert_refused_def sample_externals_def)
  have h4: "Results \<lparr>Results = [berlin]\<rparr> = berlin # []"
    by simp
  have h5: "db_Exec insert_refused ''Berlin'' (LatLong.Latitude berlin)
                (LatLong.Longitude berlin) []
              = (Some (errors_New ''pq: connection refused''), [])"
    by (simp add: insert_refused_def)
  show ?thesis
    using getLatLong_insert_failure [OF h1 h2 h3 h4 h5, of "[]"]
    by (simp only: sample_endpoints append_Nil)
qed

text \<open>
  C6: when the query of the store misses and the geocoding service answers with no results,
  \<open>getLatLong\<close> fails with the error \<open>no results found\<close>, and the calls made are the query
  and the request: nothing is written to the store.
\<close>

theorem getLatLong_no_results:
  assumes "db_Get ext name w = (Inl e0, w1)"
    and "http_Get ext (geo_endpoint ext name) w1 = (Inr body, w2)"
    and "json_Decode ext body = Inr response"
    and "Results response = []"
  shows "getLatLong ext name (w, calls)
           = (Inl (errors_New ''no results found''),
              (w2, calls @ [DbGet name, HttpGet (geo_endpoint ext name)]))"
  using assms by simp

theorem getLatLong_no_results_witness:
  "getLatLong no_results ''Berlin'' ([], [])
     = (Inl (errors_New ''no results found''), ([], [DbGet ''Berlin'', HttpGet berlin_endpoint]))"
proof -
  have h1: "db_Get no_results ''Berlin'' []
              = (Inl (errors_New ''sql: no rows in result set''), [])"
    by (simp add: no_results_def sample_externals_def cities_Get_def)
  have h2: "http_Get no_results (geo_endpoint no_results ''Berlin'') [] = (Inr ''geo.json'', [])"
    by (simp add: no_results_def sample_externals_def)
  have h3: "json_Decode no_results ''geo.json'' = Inr \<lparr>Results = []\<rparr>"
    by (simp add: no_results_def)
  have h4: "Results \<lparr>Results = []\<rparr> = []"
    by simp
  show ?thesis
    using getLatLong_no_results [OF h1 h2 h3 h4, of "[]"]
    by (simp only: sample_endpoints append_Nil)
qed

text \<open>
  C8: when the query of the store fails, with whatever error, \<open>getLatLong\<close> goes on as on a
  miss: its result is that of the geocoding lookup followed by the insert, in which the error
  of the query plays no part, and the request to the geocoding service is the call right
  after the query.
\<close>

theorem getLatLong_read_failure_is_miss:
  assumes "db_Get ext name w = (Inl e, w1)"
  shows "getLatLong ext name (w, calls)
           = (case fetchLatLong ext name (w1, calls @ [DbGet name]) of
                (Inl err, s2) \<Rightarrow> (Inl err, s2)
              | (Inr latLong, s2) \<Rightarrow>
                  (case insertCity ext name latLong s2 of
                     (Some err, s3) \<Rightarrow> (Inl err, s3)
                   | (None, s3) \<Rightarrow> (Inr latLong, s3)))
         \<and> take (length calls + 2) (snd (snd (getLatLong ext name (w, calls))))
             = calls @ [DbGet name, HttpGet (geo_endpoint ext name)]"
proof -
  have a: "getLatLong ext name (w, calls)
           = (case fetchLatLong ext name (w1, calls @ [DbGet name]) of
                (Inl err, s2) \<Rightarrow> (Inl err, s2)
              | (Inr latLong, s2) \<Rightarrow>
                  (case insertCity ext name latLong s2 of
                     (Some err, s3) \<Rightarrow> (Inl err, s3)
                   | (None, s3) \<Rightarrow> (Inr latLong, s3)))"
    using assms by simp
  obtain r w2 where f: "fetchLatLong ext name (w1, calls @ [DbGet name])
      = (r, (w2, calls @ [DbGet name, HttpGet (geo_endpoint ext name)]))"
    using fetchLatLong_calls [of ext name w1 "calls @ [DbGet name]"]
    by (cases "fetchLatLong ext name (w1, calls @ [DbGet name])") auto
  have "take (length calls + 2) (snd (snd (getLatLong ext name (w, calls))))
             = calls @ [DbGet name, HttpGet (geo_endpoint ext name)]"
    unfolding a f
    by (cases r) (auto split: prod.splits option.splits)
  with a show ?thesis by blast
qed

theorem getLatLong_read_failure_is_miss_witness:
  "getLatLong query_broken ''Berlin'' ([(''Berlin'', berlin)], [])
     = (Inr berlin, ([(''Berlin'', berlin), (''Berlin'', berlin)],
          [DbGet ''Berlin'', HttpGet berlin_endpoint,
           DbExec ''Berlin'' (LatLong.Latitude berlin) (LatLong.Longitude berlin)]))"
proof -
  have h: "db_Get query_broken ''Berlin'' [(''Berlin'', berlin)]
             = (Inl (errors_New ''driver: bad connection''), [(''Berlin'', berlin)])"
    by (simp add: query_broken_def)
  have f: "fetchLatLong query_broken ''Berlin'' ([(''Berlin'', berlin)], [] @ [DbGet ''Berlin''])
             = (Inr berlin, ([(''Berlin'', berlin)], [DbGet ''Berlin'', HttpGet berlin_endpoint]))"
    by (simp add: sample_endpoints) (simp add: query_broken_def sample_externals_def)
  have i: "insertCity query_broken ''Berlin'' berlin
               ([(''Berlin'', berlin)], [DbGet ''Berlin'', HttpGet berlin_endpoint])
             = (None, ([(''Berlin'', berlin), (''Berlin'', berlin)],
                  [DbGet ''Berlin'', HttpGet berlin_endpoint,
                   DbExec ''Berlin'' (LatLong.Latitude berlin) (LatLong.Longitude berlin)]))"
    by (simp add: query_broken_def sample_externals_def cities_Exec_def)
  show ?thesis
    using getLatLong_read_failure_is_miss [OF h, of "[]", THEN conjunct1]
    by (simp only: f i prod.case sum.case option.case)
qed

end
